theory Spec2Isabelle
  imports Complex_Main "HOL-Library.Word" "HOL-Library.Sublist"
begin

unbundle bit_operations_syntax

section \<open>The command-line front end of pixz (src/pixz.c)\<close>

subsection \<open>C strings and the string functions of the C library\<close>

text \<open>
  A C string is modelled by the list of its characters before the terminating NUL; the
  array that holds it has one more element, the terminator, so the indices \<open>0 .. length s\<close>
  can be read and every other index lies outside the object. Reading outside the object
  is undefined behaviour in C: \<open>cstr_at\<close> and \<open>strcmp_eq\<close> make it the value
  \<open>Inl OutOfBounds\<close> (\<open>Uninitialised\<close> is for reading an object that was never
  written). They say which characters a call reads; what the call returns in the running
  process is the matter of \<open>argv_at\<close> and \<open>strcmp_argv\<close> below.
\<close>

datatype fault = OutOfBounds | Uninitialised

definition NUL :: char where
  "NUL = CHR 0x00"

definition strlen :: "string \<Rightarrow> nat" where
  "strlen s = length s"

definition cstr_at :: "string \<Rightarrow> int \<Rightarrow> fault + char" where
  "cstr_at s i =
     (if 0 \<le> i \<and> i < int (length s) then Inr (s ! nat i)
      else if i = int (length s) then Inr NUL
      else Inl OutOfBounds)"

text \<open>
  \<open>strcmp_eq big i small\<close> is \<open>strcmp(big + i, small) == 0\<close>: the two strings are read
  character by character, from index \<open>i\<close> of the array of \<open>big\<close> and from the start of
  \<open>small\<close>, until they differ or both end.
\<close>

fun strcmp_eq :: "string \<Rightarrow> int \<Rightarrow> string \<Rightarrow> fault + bool" where
  "strcmp_eq big i [] =
     (case cstr_at big i of Inl e \<Rightarrow> Inl e | Inr c \<Rightarrow> Inr (c = NUL))"
| "strcmp_eq big i (y # ys) =
     (case cstr_at big i of
        Inl e \<Rightarrow> Inl e
      | Inr c \<Rightarrow> if c \<noteq> y then Inr False else strcmp_eq big (i + 1) ys)"

text \<open>
  The only string that \<open>main\<close> hands to the suffix functions is a positional argument
  (line 135). The argument strings of a process lie one after the other in memory, each
  followed by its terminator, and the program name comes first: the byte before the
  first character of an argument is the terminator of the string before it.
  \<open>argv_at s i\<close> is the byte that the process finds at index \<open>i\<close> of such a string:
  its characters, its terminator at \<open>length s\<close>, the terminator before it at \<open>-1\<close>,
  and \<open>None\<close> for every other byte, which the model does not know.
\<close>

definition argv_at :: "string \<Rightarrow> int \<Rightarrow> char option" where
  "argv_at s i =
     (if 0 \<le> i \<and> i < int (length s) then Some (s ! nat i)
      else if i = int (length s) \<or> i = - 1 then Some NUL
      else None)"

text \<open>
  \<open>strcmp_argv big i small\<close> is what \<open>strcmp(big + i, small) == 0\<close> returns in the
  process. At a byte the model does not know, the strings either differ there, and the
  answer is no, or agree there, and the answer is that of the rest: so the answer is no
  when the rest says no, and \<open>None\<close> (it depends on the unknown byte) otherwise.
\<close>

fun strcmp_argv :: "string \<Rightarrow> int \<Rightarrow> string \<Rightarrow> bool option" where
  "strcmp_argv big i [] =
     (case argv_at big i of None \<Rightarrow> None | Some c \<Rightarrow> Some (c = NUL))"
| "strcmp_argv big i (y # ys) =
     (case argv_at big i of
        Some c \<Rightarrow> if c \<noteq> y then Some False else strcmp_argv big (i + 1) ys
      | None \<Rightarrow>
          (case strcmp_argv big (i + 1) ys of
             Some False \<Rightarrow> Some False
           | Some True \<Rightarrow> None
           | None \<Rightarrow> None))"

subsection \<open>Operation modes\<close>

datatype pixz_op_t = OP_WRITE | OP_READ | OP_EXTRACT | OP_LIST

subsection \<open>Suffix substitution: strsuf, subsuf, auto_output\<close>

text \<open>
  \<open>strsuf\<close> compares from the pointer \<open>big + bl - sl\<close>, which is \<open>sl - bl\<close> characters
  before the start of \<open>big\<close> when \<open>small\<close> is the longer string. The function is
  modelled twice. \<open>strsuf\<close> follows the rules of C: the result when every character
  read belongs to \<open>big\<close>, the fault otherwise. \<open>strsuf_argv\<close> is the call as the
  process runs it on an argument string: the value it returns, with the fault left for
  a value that would depend on bytes the model does not know.
\<close>

definition strsuf :: "string \<Rightarrow> string \<Rightarrow> fault + bool" where
  "strsuf big small =
     (let bl = strlen big; sl = strlen small
      in strcmp_eq big (int bl - int sl) small)"

definition strsuf_argv :: "string \<Rightarrow> string \<Rightarrow> fault + bool" where
  "strsuf_argv big small =
     (let bl = strlen big; sl = strlen small
      in case strcmp_argv big (int bl - int sl) small of
           Some b \<Rightarrow> Inr b
         | None \<Rightarrow> Inl OutOfBounds)"

text \<open>
  \<open>subsuf\<close> returns NULL (\<open>None\<close>) when \<open>suf1\<close> is not a suffix, and otherwise a fresh
  buffer of \<open>li + l2 - l1 + 1\<close> bytes that receives the first \<open>li - l1\<close> characters of
  \<open>in\<close> (memcpy) followed by \<open>suf2\<close> and its terminator (strcpy).
\<close>

definition subsuf :: "string \<Rightarrow> string \<Rightarrow> string \<Rightarrow> fault + string option" where
  "subsuf inp suf1 suf2 =
     (case strsuf_argv inp suf1 of
        Inl e \<Rightarrow> Inl e
      | Inr False \<Rightarrow> Inr None
      | Inr True \<Rightarrow>
          (let li = strlen inp; l1 = strlen suf1
           in Inr (Some (take (li - l1) inp @ suf2))))"

text \<open>
  The macro \<open>SUF(_op, _s1, _s2)\<close>: when the mode is \<open>_op\<close> and \<open>subsuf\<close> gives a
  string, return it; otherwise go on with the rest of the function body.
\<close>

definition SUF ::
  "pixz_op_t \<Rightarrow> string \<Rightarrow> pixz_op_t \<Rightarrow> string \<Rightarrow> string \<Rightarrow>
   (fault + string option) \<Rightarrow> fault + string option" where
  "SUF op inp op' s1 s2 rest =
     (if op = op' then
        (case subsuf inp s1 s2 of
           Inl e \<Rightarrow> Inl e
         | Inr (Some r) \<Rightarrow> Inr (Some r)
         | Inr None \<Rightarrow> rest)
      else rest)"

definition auto_output :: "pixz_op_t \<Rightarrow> string \<Rightarrow> fault + string option" where
  "auto_output op inp =
     SUF op inp OP_READ ''.tar.xz'' ''.tar''
    (SUF op inp OP_READ ''.tpxz'' ''.tar''
    (SUF op inp OP_READ ''.xz'' ''''
    (SUF op inp OP_WRITE ''.tar'' ''.tpxz''
    (SUF op inp OP_WRITE '''' ''.xz''
    (Inr None)))))"

subsection \<open>Numbers on the command line: strtol and strtod\<close>

text \<open>
  \<open>strtol(nptr, &endptr, 10)\<close> of the C library: white space is skipped, an optional
  sign is read, then as many decimal digits as there are. With no digit, no conversion
  is performed: the value is 0 and \<open>endptr\<close> is \<open>nptr\<close> itself. A value outside the
  range of \<open>long\<close> (64 bits here) is clamped to \<open>LONG_MIN\<close> or \<open>LONG_MAX\<close>. The
  result is the value and the rest of the string at \<open>endptr\<close>.
\<close>

definition isspace :: "char \<Rightarrow> bool" where
  "isspace c \<longleftrightarrow> c \<in> set [CHR '' '', CHR 0x09, CHR 0x0A, CHR 0x0B, CHR 0x0C, CHR 0x0D]"

definition isdigit :: "char \<Rightarrow> bool" where
  "isdigit c \<longleftrightarrow> 48 \<le> (of_char c :: nat) \<and> (of_char c :: nat) \<le> 57"

definition digit_val :: "char \<Rightarrow> int" where
  "digit_val c = int (of_char c) - 48"

fun digits :: "int \<Rightarrow> string \<Rightarrow> int \<times> string" where
  "digits acc [] = (acc, [])"
| "digits acc (c # cs) =
     (if isdigit c then digits (10 * acc + digit_val c) cs else (acc, c # cs))"

definition LONG_MAX :: int where
  "LONG_MAX = 2 ^ 63 - 1"

definition LONG_MIN :: int where
  "LONG_MIN = - (2 ^ 63)"

definition clamp_long :: "int \<Rightarrow> int" where
  "clamp_long v = (if v < LONG_MIN then LONG_MIN else if LONG_MAX < v then LONG_MAX else v)"

definition strtol :: "string \<Rightarrow> int \<times> string" where
  "strtol nptr =
     (let t = dropWhile isspace nptr;
          (neg, u) = (case t of
                        [] \<Rightarrow> (False, [])
                      | c # cs \<Rightarrow> if c = CHR ''-'' then (True, cs)
                                 else if c = CHR ''+'' then (False, cs)
                                 else (False, t))
      in case u of
           [] \<Rightarrow> (0, nptr)
         | d # ds \<Rightarrow>
             if isdigit d then
               (let (v, rest) = digits 0 u
                in (clamp_long (if neg then - v else v), rest))
             else (0, nptr))"

text \<open>
  The value of a C \<open>double\<close>: a finite number, an infinity or a NaN. Only the
  comparison \<open>optdbl <= 0\<close> is used, which is false for a NaN. \<open>strtod\<close> itself is a
  parameter of the model: a function from the argument to the value and the rest of the
  string at \<open>optend\<close>.
\<close>

datatype c_double = Finite real | PlusInf | MinusInf | NaN

fun dbl_le_zero :: "c_double \<Rightarrow> bool" where
  "dbl_le_zero (Finite r) = (r \<le> 0)"
| "dbl_le_zero PlusInf = False"
| "dbl_le_zero MinusInf = True"
| "dbl_le_zero NaN = False"

type_synonym strtod_t = "string \<Rightarrow> c_double \<times> string"

subsection \<open>How a run ends\<close>

text \<open>
  What the process writes to the diagnostic stream before it exits, and how it ends:
  \<open>exit(n)\<close> (also the \<open>return 0\<close> of \<open>main\<close>), \<open>die(...)\<close> of the engine's support
  code, or undefined behaviour. The stream holds the message given to \<open>usage\<close>, the
  help text, the version line, and before them the line that \<open>getopt\<close> itself prints
  when it returns \<open>?\<close> (\<open>Getopt_error\<close>).
\<close>

datatype diag = Getopt_error | Msg string | Help_text | Version_text

datatype die_reason =
  Cannot_open_input string | Cannot_open_output string | Engine_failed

datatype halt = Exit int "diag list" | Die die_reason | Undefined fault

definition usage :: "string option \<Rightarrow> halt" where
  "usage msg =
     (case msg of
        Some m \<Rightarrow> Exit 2 [Msg m, Help_text]
      | None \<Rightarrow> Exit 0 [Help_text])"

definition version :: halt where
  "version = Exit 0 [Version_text]"

text \<open>A halt that comes after \<open>getopt\<close> has printed its own line.\<close>

fun after_getopt_error :: "halt \<Rightarrow> halt" where
  "after_getopt_error (Exit n out) = Exit n (Getopt_error # out)"
| "after_getopt_error h = h"

subsection \<open>The option loop of main\<close>

text \<open>
  The local variables of \<open>main\<close> that the option loop sets, and the three tunables of
  the engine it assigns (\<open>None\<close>: left at the engine's default).
\<close>

type_synonym uint32_t = "32 word"

definition LZMA_PRESET_DEFAULT :: uint32_t where
  "LZMA_PRESET_DEFAULT = 6"

definition LZMA_PRESET_EXTREME :: uint32_t where
  "LZMA_PRESET_EXTREME = push_bit 31 1"

record opts =
  level :: uint32_t
  tar :: bool
  keep_input :: bool
  extreme :: bool
  op :: pixz_op_t
  ipath :: "string option"
  opath :: "string option"
  gBlockFraction :: "c_double option"
  gPipelineProcessMax :: "int option"
  gPipelineQSize :: "int option"

definition init_opts :: opts where
  "init_opts =
     \<lparr> level = LZMA_PRESET_DEFAULT, tar = True, keep_input = False, extreme = False,
       op = OP_WRITE, ipath = None, opath = None,
       gBlockFraction = None, gPipelineProcessMax = None, gPipelineQSize = None \<rparr>"

text \<open>
  \<open>getopt\<close> belongs to the C library. The model takes what it returns, call after call:
  the option character \<open>ch\<close> (\<open>?\<close> for an option it does not know or one whose argument
  is missing, after a line of its own on the diagnostic stream) and \<open>optarg\<close>, which
  matters for \<open>i o p f q\<close> only. The positional arguments that it leaves,
  \<open>argv + optind\<close>, are a second list.
\<close>

type_synonym event = "char \<times> string"

definition getopt_case :: "strtod_t \<Rightarrow> opts \<Rightarrow> event \<Rightarrow> halt + opts" where
  "getopt_case strtod s ev =
     (let ch = fst ev; optarg = snd ev in
      if ch = CHR ''c'' then Inr s
      else if ch = CHR ''d'' then Inr (s\<lparr>op := OP_READ\<rparr>)
      else if ch = CHR ''x'' then Inr (s\<lparr>op := OP_EXTRACT\<rparr>)
      else if ch = CHR ''l'' then Inr (s\<lparr>op := OP_LIST\<rparr>)
      else if ch = CHR ''i'' then Inr (s\<lparr>ipath := Some optarg\<rparr>)
      else if ch = CHR ''o'' then Inr (s\<lparr>opath := Some optarg\<rparr>)
      else if ch = CHR ''t'' then Inr (s\<lparr>tar := False\<rparr>)
      else if ch = CHR ''k'' then Inr (s\<lparr>keep_input := True\<rparr>)
      else if ch = CHR ''h'' then Inl (usage None)
      else if ch = CHR ''e'' then Inr (s\<lparr>extreme := True\<rparr>)
      else if ch = CHR ''V'' then Inl version
      else if ch = CHR ''f'' then
        (let (optdbl, optend) = strtod optarg in
         if optend \<noteq> [] \<or> dbl_le_zero optdbl
         then Inl (usage (Some ''Need a positive floating-point argument to -f''))
         else Inr (s\<lparr>gBlockFraction := Some optdbl\<rparr>))
      else if ch = CHR ''p'' then
        (let (optint, optend) = strtol optarg in
         if optint < 0 \<or> optend \<noteq> []
         then Inl (usage (Some ''Need a non-negative integer argument to -p''))
         else Inr (s\<lparr>gPipelineProcessMax := Some optint\<rparr>))
      else if ch = CHR ''q'' then
        (let (optint, optend) = strtol optarg in
         if optint \<le> 0 \<or> optend \<noteq> []
         then Inl (usage (Some ''Need a positive integer argument to -q''))
         else Inr (s\<lparr>gPipelineQSize := Some optint\<rparr>))
      else if isdigit ch then Inr (s\<lparr>level := of_nat (of_char ch - 48)\<rparr>)
      else if ch = CHR ''?'' then Inl (after_getopt_error (usage (Some '''')))
      else Inl (usage (Some '''')))"

fun getopt_loop :: "strtod_t \<Rightarrow> opts \<Rightarrow> event list \<Rightarrow> halt + opts" where
  "getopt_loop strtod s [] = Inr s"
| "getopt_loop strtod s (ev # evs) =
     (case getopt_case strtod s ev of
        Inl h \<Rightarrow> Inl h
      | Inr s' \<Rightarrow> getopt_loop strtod s' evs)"

subsection \<open>The files and streams a run touches\<close>

text \<open>
  The part of the operating system that \<open>main\<close> talks to. \<open>files\<close> maps each existing
  path to its \<open>st_mode\<close>; \<open>umask\<close> is the file mode creation mask of the process;
  \<open>can_read\<close>, \<open>can_write\<close> and \<open>can_unlink\<close> say whether the system lets the process
  open a path for reading, open or create it for writing, and remove it; \<open>is_tty\<close> says
  whether the output stream (\<open>None\<close>: standard output, \<open>Some p\<close>: the file opened at
  \<open>p\<close>) is a terminal; \<open>fdopen_ok\<close> and \<open>engine_ok\<close> say whether \<open>fdopen\<close> and the
  engine succeed. \<open>calls\<close> is the log of what the run asked for, oldest first.
\<close>

type_synonym mode_t = "32 word"

datatype call =
  Fopen string string
| Stat string
| Open_creat_wronly string mode_t
| Fdopen
| Pixz_write bool uint32_t
| Pixz_read bool "string list"
| Pixz_list bool
| Unlink string

record world =
  files :: "string \<rightharpoonup> mode_t"
  umask :: mode_t
  can_read :: "string \<Rightarrow> bool"
  can_write :: "string \<Rightarrow> bool"
  can_unlink :: "string \<Rightarrow> bool"
  is_tty :: "string option \<Rightarrow> bool"
  fdopen_ok :: bool
  engine_ok :: bool
  calls :: "call list"

definition log :: "call \<Rightarrow> world \<Rightarrow> world" where
  "log c w = w\<lparr>calls := calls w @ [c]\<rparr>"

definition S_IFREG :: mode_t where
  "S_IFREG = 0x8000"

text \<open>The twelve permission bits of a mode, octal 07777.\<close>

definition perm_bits :: "mode_t \<Rightarrow> mode_t" where
  "perm_bits m = m AND 0xFFF"

text \<open>
  Creating a file (POSIX \<open>open\<close> with \<open>O_CREAT\<close>, and \<open>fopen\<close> with \<open>"w"\<close>, which asks
  for octal 0666): the new file is a regular file whose permission bits are those of the
  requested mode that the umask does not clear. A path that exists keeps its mode.
\<close>

definition create_file :: "string \<Rightarrow> mode_t \<Rightarrow> world \<Rightarrow> world" where
  "create_file p m w =
     (case files w p of
        Some old \<Rightarrow> w
      | None \<Rightarrow> w\<lparr>files := (files w)(p \<mapsto> S_IFREG OR (perm_bits m AND NOT (umask w)))\<rparr>)"

definition fopen_r :: "string \<Rightarrow> world \<Rightarrow> bool \<times> world" where
  "fopen_r p w = (files w p \<noteq> None \<and> can_read w p, log (Fopen p ''r'') w)"

definition fopen_w :: "string \<Rightarrow> world \<Rightarrow> bool \<times> world" where
  "fopen_w p w =
     (if can_write w p then (True, create_file p 0x1B6 (log (Fopen p ''w'') w))
      else (False, log (Fopen p ''w'') w))"

definition stat :: "string \<Rightarrow> world \<Rightarrow> mode_t option \<times> world" where
  "stat p w = (files w p, log (Stat p) w)"

definition open_creat_wronly :: "string \<Rightarrow> mode_t \<Rightarrow> world \<Rightarrow> bool \<times> world" where
  "open_creat_wronly p m w =
     (if can_write w p then (True, create_file p m (log (Open_creat_wronly p m) w))
      else (False, log (Open_creat_wronly p m) w))"

definition unlink :: "string \<Rightarrow> world \<Rightarrow> world" where
  "unlink p w =
     (let w' = log (Unlink p) w
      in if can_unlink w' p then w'\<lparr>files := (files w')(p := None)\<rparr> else w')"

text \<open>The three entry points of the engine: logged, and fatal when the engine fails.\<close>

definition engine :: "call \<Rightarrow> world \<Rightarrow> (halt \<times> world) + world" where
  "engine c w =
     (let w' = log c w
      in if engine_ok w' then Inr w' else Inl (Die Engine_failed, w'))"

subsection \<open>main after the option loop\<close>

text \<open>
  Lines 121 to 139: the positional arguments. The result is the updated locals and
  \<open>iremove\<close>. The branch for a fault of \<open>auto_output\<close> is there for the type only:
  on the suffixes of the table \<open>auto_output\<close> always returns a name or NULL (lemma
  \<open>auto_output_defined\<close> below).
\<close>

definition main_positional :: "opts \<Rightarrow> string list \<Rightarrow> halt + (opts \<times> bool)" where
  "main_positional s argv =
     (let argc = length argv in
      if op s \<noteq> OP_EXTRACT \<and> argc \<ge> 1 then
        if argc > 2 \<or> (op s = OP_LIST \<and> argc = 2) then
          Inl (usage (Some ''Too many arguments''))
        else if ipath s \<noteq> None then
          Inl (usage (Some ''Multiple input files specified''))
        else
          (let s1 = s\<lparr>ipath := Some (argv ! 0)\<rparr> in
           if argc = 2 then
             if opath s1 \<noteq> None then
               Inl (usage (Some ''Multiple output files specified''))
             else Inr (s1\<lparr>opath := Some (argv ! 1)\<rparr>, False)
           else if op s1 \<noteq> OP_LIST then
             (case auto_output (op s1) (argv ! 0) of
                Inl f \<Rightarrow> Inl (Undefined f)
              | Inr None \<Rightarrow> Inl (usage (Some ''Unknown suffix''))
              | Inr (Some r) \<Rightarrow> Inr (s1\<lparr>opath := Some r\<rparr>, True))
           else Inr (s1, False))
      else Inr (s, False))"

text \<open>
  Lines 141 to 165: the two streams. \<open>gInFile == stdin\<close> holds exactly when there is no
  input path. The result of \<open>stat\<close> is not checked, so that a failing \<open>stat\<close> would leave
  \<open>input_stat\<close> uninitialised.
\<close>

definition main_open :: "opts \<Rightarrow> world \<Rightarrow> (halt \<times> world) + world" where
  "main_open s w =
     (case ipath s of
        None \<Rightarrow>
          (case opath s of
             None \<Rightarrow> Inr w
           | Some opth \<Rightarrow>
               (let (ok, w1) = fopen_w opth w in
                if ok then Inr w1 else Inl (Die (Cannot_open_output opth), w1)))
      | Some ipth \<Rightarrow>
          (let (ok, w1) = fopen_r ipth w in
           if \<not> ok then Inl (Die (Cannot_open_input ipth), w1)
           else
             (case opath s of
                None \<Rightarrow> Inr w1
              | Some opth \<Rightarrow>
                  (let (st, w2) = stat ipth w1 in
                   case st of
                     None \<Rightarrow> Inl (Undefined Uninitialised, w2)
                   | Some st_mode \<Rightarrow>
                       (let (ok, w3) = open_creat_wronly opth st_mode w2 in
                        if \<not> ok then Inl (Die (Cannot_open_output opth), w3)
                        else
                          (let w4 = log Fdopen w3 in
                           if fdopen_ok w4 then Inr w4
                           else Inl (Die (Cannot_open_output opth), w4)))))))"

text \<open>Lines 173 to 184: the switch on the mode.\<close>

definition main_dispatch :: "opts \<Rightarrow> string list \<Rightarrow> world \<Rightarrow> (halt \<times> world) + world" where
  "main_dispatch s argv w =
     (case op s of
        OP_WRITE \<Rightarrow>
          if is_tty w (opath s) then
            Inl (usage (Some ''Refusing to output to a TTY''), w)
          else
            (let lvl = (if extreme s then level s OR LZMA_PRESET_EXTREME else level s)
             in engine (Pixz_write (tar s) lvl) w)
      | OP_READ \<Rightarrow> engine (Pixz_read (tar s) []) w
      | OP_EXTRACT \<Rightarrow> engine (Pixz_read (tar s) argv) w
      | OP_LIST \<Rightarrow> engine (Pixz_list (tar s)) w)"

text \<open>Lines 186 and 187: the input is removed, whatever \<open>unlink\<close> returns.\<close>

definition main_cleanup :: "opts \<Rightarrow> bool \<Rightarrow> world \<Rightarrow> world" where
  "main_cleanup s iremove w =
     (if iremove \<and> \<not> keep_input s then
        (case ipath s of None \<Rightarrow> w | Some ipth \<Rightarrow> unlink ipth w)
      else w)"

definition main :: "strtod_t \<Rightarrow> world \<Rightarrow> event list \<Rightarrow> string list \<Rightarrow> halt \<times> world" where
  "main strtod w evs argv =
     (case getopt_loop strtod init_opts evs of
        Inl h \<Rightarrow> (h, w)
      | Inr s \<Rightarrow>
          (case main_positional s argv of
             Inl h \<Rightarrow> (h, w)
           | Inr (s1, iremove) \<Rightarrow>
               (case main_open s1 w of
                  Inl hw \<Rightarrow> hw
                | Inr w1 \<Rightarrow>
                    (case main_dispatch s1 argv w1 of
                       Inl hw \<Rightarrow> hw
                     | Inr w2 \<Rightarrow> (Exit 0 [], main_cleanup s1 iremove w2)))))"

subsection \<open>The rules the option loop is checked against\<close>

text \<open>
  The mode flags and the level flags as tables, and the value that the last flag of a
  family leaves in a variable that starts at \<open>d\<close>. These follow the description of the
  flags, not the code: the theorems below compare the loop with them.
\<close>

definition mode_flag :: "char \<Rightarrow> pixz_op_t option" where
  "mode_flag = map_of [(CHR ''d'', OP_READ), (CHR ''x'', OP_EXTRACT), (CHR ''l'', OP_LIST)]"

definition level_flag :: "char \<Rightarrow> uint32_t option" where
  "level_flag =
     map_of [(CHR ''0'', 0), (CHR ''1'', 1), (CHR ''2'', 2), (CHR ''3'', 3), (CHR ''4'', 4),
             (CHR ''5'', 5), (CHR ''6'', 6), (CHR ''7'', 7), (CHR ''8'', 8), (CHR ''9'', 9)]"

definition last_flag :: "(char \<Rightarrow> 'a option) \<Rightarrow> 'a \<Rightarrow> event list \<Rightarrow> 'a" where
  "last_flag f d evs =
     (case List.map_filter f (map fst evs) of
        [] \<Rightarrow> d
      | v # vs \<Rightarrow> last (v # vs))"

text \<open>The messages that \<open>main\<close> passes to \<open>usage\<close>.\<close>

definition usage_errors :: "string list" where
  "usage_errors =
     [''Need a positive floating-point argument to -f'',
      ''Need a non-negative integer argument to -p'',
      ''Need a positive integer argument to -q'',
      '''',
      ''Too many arguments'',
      ''Multiple input files specified'',
      ''Multiple output files specified'',
      ''Unknown suffix'',
      ''Refusing to output to a TTY'']"

subsection \<open>A concrete environment for the examples\<close>

text \<open>
  A \<open>strtod\<close> that converts nothing, for runs without \<open>-f\<close>, and a system that holds
  the single file \<open>input.tar\<close> of mode \<open>m\<close>, with umask \<open>u\<close>, where every open and
  unlink is permitted, no stream is a terminal and the engine succeeds.
\<close>

definition no_strtod :: strtod_t where
  "no_strtod nptr = (Finite 0, nptr)"

definition example_world :: "mode_t \<Rightarrow> mode_t \<Rightarrow> world" where
  "example_world m u =
     \<lparr> files = [''input.tar'' \<mapsto> m], umask = u, can_read = (\<lambda>p. True),
       can_write = (\<lambda>p. True), can_unlink = (\<lambda>p. True), is_tty = (\<lambda>p. False),
       fdopen_ok = True, engine_ok = True, calls = [] \<rparr>"

section \<open>Properties\<close>

text \<open>The definitions that a run on concrete arguments unfolds.\<close>

lemmas run_defs =
  main_def init_opts_def getopt_case_def main_positional_def auto_output_def SUF_def
  subsuf_def strsuf_argv_def argv_at_def strsuf_def strlen_def cstr_at_def main_open_def fopen_r_def fopen_w_def
  log_def stat_def open_creat_wronly_def create_file_def main_dispatch_def engine_def
  main_cleanup_def unlink_def perm_bits_def S_IFREG_def LZMA_PRESET_DEFAULT_def
  example_world_def usage_def version_def

subsection \<open>The suffix test\<close>

lemma strcmp_eq_tail:
  "0 \<le> i \<Longrightarrow> nat i + length small = length big \<Longrightarrow>
   strcmp_eq big i small = Inr (drop (nat i) big = small)"
proof (induction small arbitrary: i)
  case Nil
  then have "i = int (length big)" by simp
  then show ?case by (simp add: cstr_at_def)
next
  case (Cons y ys)
  from Cons.prems have lt: "nat i < length big" by simp
  then have d: "drop (nat i) big = big ! nat i # drop (Suc (nat i)) big"
    by (simp add: Cons_nth_drop_Suc)
  from Cons.prems lt have "i < int (length big)" by linarith
  with Cons.prems have c: "cstr_at big i = Inr (big ! nat i)"
    by (simp add: cstr_at_def)
  from Cons.prems have n: "nat (i + 1) = Suc (nat i)" by simp
  have "strcmp_eq big (i + 1) ys = Inr (drop (nat (i + 1)) big = ys)"
    using Cons.prems by (intro Cons.IH) simp_all
  with c d n show ?case by auto
qed

lemma strsuf_in_bounds:
  assumes "length small \<le> length big"
  shows "strsuf big small = Inr (suffix small big)"
proof -
  let ?k = "length big - length small"
  have "strcmp_eq big (int (length big) - int (length small)) small
        = Inr (drop (nat (int (length big) - int (length small))) big = small)"
    using assms by (intro strcmp_eq_tail) simp_all
  moreover have "nat (int (length big) - int (length small)) = ?k"
    using assms by simp
  moreover have "(drop ?k big = small) = suffix small big"
  proof
    assume "drop ?k big = small"
    then show "suffix small big" by (metis suffix_drop)
  next
    assume "suffix small big"
    then obtain zs where "big = zs @ small" by (auto simp: suffix_def)
    then show "drop ?k big = small" by simp
  qed
  ultimately show ?thesis by (simp add: strsuf_def strlen_def)
qed

lemma strsuf_out_of_bounds:
  assumes "length big < length small"
  shows "strsuf big small = Inl OutOfBounds"
proof -
  from assms obtain y ys where s: "small = y # ys"
    by (cases small) simp_all
  have "cstr_at big (int (length big) - int (length small)) = Inl OutOfBounds"
    using assms s by (simp add: cstr_at_def)
  with s show ?thesis by (simp add: strsuf_def strlen_def)
qed

text \<open>
  What \<open>strsuf\<close> does on every pair of strings: the suffix test when \<open>small\<close> is not
  longer than \<open>big\<close>, a read before the start of \<open>big\<close> when it is.
\<close>

lemma strsuf_eq:
  "strsuf big small =
     (if length small \<le> length big then Inr (suffix small big) else Inl OutOfBounds)"
  by (simp add: strsuf_in_bounds strsuf_out_of_bounds)

text \<open>
  Claim C8 says that \<open>strsuf(big, small)\<close> reads only characters of \<open>big\<close>, also when
  \<open>small\<close> is the longer string. On the one-character name \<open>a\<close> and the suffix
  \<open>.tar.xz\<close> the comparison starts six characters before the start of \<open>big\<close>.
\<close>

theorem strsuf_reads_before_big:
  "strsuf ''a'' ''.tar.xz'' = Inl OutOfBounds"
  by (simp add: strsuf_def strlen_def cstr_at_def)

subsection \<open>The derived output name\<close>

text \<open>
  The value of the suffix test in the process. When \<open>small\<close> fits into \<open>big\<close> the
  comparison stays inside \<open>big\<close>; when it does not, the comparison starts before
  \<open>big\<close> and reaches, at the latest, the terminator that precedes \<open>big\<close>, which no
  character of \<open>small\<close> equals: the answer is no, whatever the bytes before it are.
\<close>

lemma strcmp_argv_tail:
  "0 \<le> i \<Longrightarrow> nat i + length small = length big \<Longrightarrow>
   strcmp_argv big i small = Some (drop (nat i) big = small)"
proof (induction small arbitrary: i)
  case Nil
  then have "i = int (length big)" by simp
  then show ?case by (simp add: argv_at_def)
next
  case (Cons y ys)
  from Cons.prems have lt: "nat i < length big" by simp
  then have d: "drop (nat i) big = big ! nat i # drop (Suc (nat i)) big"
    by (simp add: Cons_nth_drop_Suc)
  from Cons.prems lt have "i < int (length big)" by linarith
  with Cons.prems have c: "argv_at big i = Some (big ! nat i)"
    by (simp add: argv_at_def)
  from Cons.prems have n: "nat (i + 1) = Suc (nat i)" by simp
  have "strcmp_argv big (i + 1) ys = Some (drop (nat (i + 1)) big = ys)"
    using Cons.prems by (intro Cons.IH) simp_all
  with c d n show ?case by auto
qed

lemma strcmp_argv_stray:
  "i < 0 \<Longrightarrow> nat (- i) \<le> length small \<Longrightarrow> NUL \<notin> set small \<Longrightarrow>
   strcmp_argv big i small = Some False"
proof (induction small arbitrary: i)
  case Nil
  then show ?case by simp
next
  case (Cons y ys)
  show ?case
  proof (cases "i = - 1")
    case True
    with Cons.prems show ?thesis by (auto simp: argv_at_def)
  next
    case False
    with Cons.prems have u: "argv_at big i = None"
      by (simp add: argv_at_def)
    from False Cons.prems have "strcmp_argv big (i + 1) ys = Some False"
      by (intro Cons.IH) auto
    with u show ?thesis by simp
  qed
qed

lemma strsuf_argv_eq:
  assumes "NUL \<notin> set small"
  shows "strsuf_argv big small = Inr (suffix small big)"
proof (cases "length small \<le> length big")
  case True
  let ?k = "length big - length small"
  have "strcmp_argv big (int (length big) - int (length small)) small
        = Some (drop (nat (int (length big) - int (length small))) big = small)"
    using True by (intro strcmp_argv_tail) simp_all
  moreover have "nat (int (length big) - int (length small)) = ?k"
    using True by simp
  moreover have "(drop ?k big = small) = suffix small big"
  proof
    assume "drop ?k big = small"
    then show "suffix small big" by (metis suffix_drop)
  next
    assume "suffix small big"
    then obtain zs where "big = zs @ small" by (auto simp: suffix_def)
    then show "drop ?k big = small" by simp
  qed
  ultimately show ?thesis by (simp add: strsuf_argv_def strlen_def)
next
  case False
  then have "strcmp_argv big (int (length big) - int (length small)) small = Some False"
    using assms by (intro strcmp_argv_stray) simp_all
  moreover from False have "\<not> suffix small big"
    by (auto dest: suffix_length_le)
  ultimately show ?thesis by (simp add: strsuf_argv_def strlen_def)
qed

text \<open>Where \<open>strsuf\<close> reads inside \<open>big\<close> only, the process returns its result.\<close>

lemma strsuf_argv_agrees:
  assumes "strsuf big small = Inr b"
  shows "strsuf_argv big small = Inr b"
proof -
  from assms have le: "length small \<le> length big" and b: "b = suffix small big"
    by (auto simp: strsuf_eq split: if_splits)
  let ?k = "length big - length small"
  have "strcmp_argv big (int (length big) - int (length small)) small
        = Some (drop (nat (int (length big) - int (length small))) big = small)"
    using le by (intro strcmp_argv_tail) simp_all
  moreover have "nat (int (length big) - int (length small)) = ?k"
    using le by simp
  moreover have "(drop ?k big = small) = suffix small big"
  proof
    assume "drop ?k big = small"
    then show "suffix small big" by (metis suffix_drop)
  next
    assume "suffix small big"
    then obtain zs where "big = zs @ small" by (auto simp: suffix_def)
    then show "drop ?k big = small" by simp
  qed
  ultimately show ?thesis using b by (simp add: strsuf_argv_def strlen_def)
qed

lemma subsuf_eq:
  assumes "NUL \<notin> set suf1"
  shows "subsuf inp suf1 suf2 =
     Inr (if suffix suf1 inp then Some (take (length inp - length suf1) inp @ suf2) else None)"
  using assms by (simp add: subsuf_def strsuf_argv_eq strlen_def)

lemma auto_output_READ:
  "auto_output OP_READ n =
     Inr (if suffix ''.tar.xz'' n then Some (take (length n - 7) n @ ''.tar'')
          else if suffix ''.tpxz'' n then Some (take (length n - 5) n @ ''.tar'')
          else if suffix ''.xz'' n then Some (take (length n - 3) n)
          else None)"
  by (simp add: auto_output_def SUF_def subsuf_eq NUL_def eval_nat_numeral)

lemma auto_output_WRITE:
  "auto_output OP_WRITE n =
     Inr (Some (if suffix ''.tar'' n then take (length n - 4) n @ ''.tpxz'' else n @ ''.xz''))"
  by (simp add: auto_output_def SUF_def subsuf_eq NUL_def eval_nat_numeral)

text \<open>No call of \<open>auto_output\<close> ends in the fault.\<close>

lemma auto_output_defined: "\<exists>r. auto_output m n = Inr r"
  by (cases m) (simp_all add: auto_output_READ auto_output_WRITE, simp_all add: auto_output_def SUF_def)



text \<open>
  Claim C3: in Write mode a name is derived for every filename: a name ending in
  \<open>.tar\<close> loses it and gets \<open>.tpxz\<close>, every other name gets \<open>.xz\<close> appended
  unchanged.
\<close>

theorem auto_output_write_rules:
  "auto_output OP_WRITE n =
     Inr (Some (if suffix ''.tar'' n then take (length n - length ''.tar'') n @ ''.tpxz''
                else n @ ''.xz''))"
  by (simp add: auto_output_WRITE eval_nat_numeral)

text \<open>
  Claim C10: a Read run on the single name \<open>.xz\<close> derives the empty output name and
  reports no unknown suffix; once the input is open, the run goes on to \<open>stat\<close> and to
  opening the output under the empty name.
\<close>

theorem read_dot_xz_derives_empty_name:
  "auto_output OP_READ ''.xz'' = Inr (Some '''') \<and>
   (op s = OP_READ \<and> ipath s = None \<longrightarrow>
      main_positional s [''.xz''] = Inr (s\<lparr>ipath := Some ''.xz'', opath := Some ''''\<rparr>, True)) \<and>
   (files w ''.xz'' = Some m \<and> can_read w ''.xz'' \<longrightarrow>
      fst (main strtod w [(CHR ''d'', a)] [''.xz'']) \<noteq> usage (Some ''Unknown suffix'') \<and>
      (\<exists>rest. calls (snd (main strtod w [(CHR ''d'', a)] [''.xz'']))
         = calls w @ [Fopen ''.xz'' ''r'', Stat ''.xz'', Open_creat_wronly '''' m] @ rest))"
proof -
  have a: "auto_output OP_READ ''.xz'' = Inr (Some '''')"
    by (simp add: auto_output_READ suffix_to_prefix)
  have p: "op s = OP_READ \<and> ipath s = None \<longrightarrow>
      main_positional s [''.xz''] = Inr (s\<lparr>ipath := Some ''.xz'', opath := Some ''''\<rparr>, True)"
    by (simp add: main_positional_def a)
  have r: "files w ''.xz'' = Some m \<and> can_read w ''.xz'' \<longrightarrow>
      fst (main strtod w [(CHR ''d'', a)] [''.xz'']) \<noteq> usage (Some ''Unknown suffix'') \<and>
      (\<exists>rest. calls (snd (main strtod w [(CHR ''d'', a)] [''.xz'']))
         = calls w @ [Fopen ''.xz'' ''r'', Stat ''.xz'', Open_creat_wronly '''' m] @ rest)"
    by (simp add: main_def getopt_case_def init_opts_def main_positional_def a main_open_def
          fopen_r_def stat_def open_creat_wronly_def create_file_def log_def main_dispatch_def
          engine_def main_cleanup_def unlink_def usage_def Let_def
          split: option.split)
  from a p r show ?thesis by blast
qed

theorem read_dot_xz_derives_empty_name_witness:
  "fst (main no_strtod
          ((example_world 0x81A4 0x12)\<lparr>files := [''.xz'' \<mapsto> 0x81A4], can_write := (\<lambda>p. p \<noteq> [])\<rparr>)
          [(CHR ''d'', [])] [''.xz''])
     = Die (Cannot_open_output '''') \<and>
   calls (snd (main no_strtod
          ((example_world 0x81A4 0x12)\<lparr>files := [''.xz'' \<mapsto> 0x81A4], can_write := (\<lambda>p. p \<noteq> [])\<rparr>)
          [(CHR ''d'', [])] [''.xz'']))
     = [Fopen ''.xz'' ''r'', Stat ''.xz'', Open_creat_wronly '''' 0x81A4]"
  using read_dot_xz_derives_empty_name
    [of "init_opts" "(example_world 0x81A4 0x12)\<lparr>files := [''.xz'' \<mapsto> 0x81A4], can_write := (\<lambda>p. p \<noteq> [])\<rparr>"
        "0x81A4" no_strtod "[]"]
  by (simp add: run_defs)

subsection \<open>The option loop\<close>

text \<open>
  Claim C7 says that \<open>-p\<close> is rejected unless its argument parses completely as a
  non-negative integer. The empty argument holds no integer, yet \<open>strtol\<close> returns 0
  with nothing left over, and the loop accepts it as the thread bound 0.
\<close>

theorem p_flag_accepts_empty_argument:
  "getopt_loop strtod init_opts [(CHR ''p'', [])]
     = Inr (init_opts\<lparr>gPipelineProcessMax := Some 0\<rparr>)"
  by (simp add: getopt_case_def strtol_def)

subsection \<open>Whole runs\<close>

text \<open>
  The input is removed by \<open>main\<close> only through \<open>iremove\<close>, which the positional
  arguments set exactly on the branch that derives the output name: one positional
  argument outside Extract and List mode. That branch assigns the derived name to the
  output path whatever \<open>-o\<close> had set.
\<close>

lemma main_positional_iremove:
  "case main_positional s argv of
     Inl h \<Rightarrow> True
   | Inr x \<Rightarrow> snd x = (op s \<noteq> OP_EXTRACT \<and> op s \<noteq> OP_LIST \<and> length argv = 1)"
  by (auto simp: main_positional_def Let_def split: sum.split option.split)

lemma main_positional_single:
  assumes "op s \<noteq> OP_EXTRACT" and "op s \<noteq> OP_LIST" and "ipath s = None"
    and "auto_output (op s) p = Inr (Some r)"
  shows "main_positional s [p] = Inr (s\<lparr>ipath := Some p, opath := Some r\<rparr>, True)"
  using assms by (simp add: main_positional_def)

lemma main_cleanup_unlinks:
  "Unlink p \<in> set (calls (main_cleanup s iremove w)) - set (calls w) \<Longrightarrow>
   iremove \<and> \<not> keep_input s \<and> ipath s = Some p"
  by (auto simp: main_cleanup_def unlink_def log_def Let_def split: if_splits option.splits)

text \<open>
  Claim C1 says that with \<open>-o out.xz\<close> and the single positional argument
  \<open>input.tar\<close> the output goes to \<open>out.xz\<close> and the input is kept. The run opens
  the derived name \<open>input.tpxz\<close> instead, never touches \<open>out.xz\<close>, and removes
  \<open>input.tar\<close>.
\<close>

theorem o_flag_overridden_and_input_removed:
  "fst (main no_strtod (example_world 0x81A4 0x12) [(CHR ''o'', ''out.xz'')] [''input.tar''])
     = Exit 0 [] \<and>
   calls (snd (main no_strtod (example_world 0x81A4 0x12) [(CHR ''o'', ''out.xz'')] [''input.tar'']))
     = [Fopen ''input.tar'' ''r'', Stat ''input.tar'',
        Open_creat_wronly ''input.tpxz'' 0x81A4, Fdopen, Pixz_write True 6,
        Unlink ''input.tar''] \<and>
   files (snd (main no_strtod (example_world 0x81A4 0x12) [(CHR ''o'', ''out.xz'')] [''input.tar'']))
     ''input.tar'' = None \<and>
   files (snd (main no_strtod (example_world 0x81A4 0x12) [(CHR ''o'', ''out.xz'')] [''input.tar'']))
     ''out.xz'' = None"
  by (simp add: run_defs)

subsection \<open>The last flag of a family decides\<close>

lemma last_flag_Nil: "last_flag f d [] = d"
  by (simp add: last_flag_def List.map_filter_simps)

lemma last_flag_Cons:
  "last_flag f d (ev # evs) =
     last_flag f (case f (fst ev) of None \<Rightarrow> d | Some v \<Rightarrow> v) evs"
  by (simp add: last_flag_def List.map_filter_simps split: option.splits list.splits)

lemma digit_chars:
  assumes "isdigit c"
  shows "c = CHR ''0'' \<or> c = CHR ''1'' \<or> c = CHR ''2'' \<or> c = CHR ''3'' \<or> c = CHR ''4''
     \<or> c = CHR ''5'' \<or> c = CHR ''6'' \<or> c = CHR ''7'' \<or> c = CHR ''8'' \<or> c = CHR ''9''"
proof -
  define n where "n = (of_char c :: nat)"
  from assms have "48 \<le> n" "n \<le> 57" by (simp_all add: isdigit_def n_def)
  then have "n = 48 \<or> n = 49 \<or> n = 50 \<or> n = 51 \<or> n = 52 \<or> n = 53 \<or> n = 54
      \<or> n = 55 \<or> n = 56 \<or> n = 57"
    by arith
  then have "(of_char c :: nat) = of_char (CHR ''0'') \<or> (of_char c :: nat) = of_char (CHR ''1'')
     \<or> (of_char c :: nat) = of_char (CHR ''2'') \<or> (of_char c :: nat) = of_char (CHR ''3'')
     \<or> (of_char c :: nat) = of_char (CHR ''4'') \<or> (of_char c :: nat) = of_char (CHR ''5'')
     \<or> (of_char c :: nat) = of_char (CHR ''6'') \<or> (of_char c :: nat) = of_char (CHR ''7'')
     \<or> (of_char c :: nat) = of_char (CHR ''8'') \<or> (of_char c :: nat) = of_char (CHR ''9'')"
    by (simp add: n_def)
  then show ?thesis unfolding of_char_eq_iff .
qed

lemma level_flag_digit:
  "level_flag c = (if isdigit c then Some (of_nat (of_char c - 48)) else None)"
proof (cases "isdigit c")
  case True
  from digit_chars [OF this] True show ?thesis
    by (elim disjE) (simp_all add: level_flag_def)
next
  case False
  then have "c \<noteq> CHR ''0''" "c \<noteq> CHR ''1''" "c \<noteq> CHR ''2''" "c \<noteq> CHR ''3''" "c \<noteq> CHR ''4''"
    "c \<noteq> CHR ''5''" "c \<noteq> CHR ''6''" "c \<noteq> CHR ''7''" "c \<noteq> CHR ''8''" "c \<noteq> CHR ''9''"
    by (auto simp: isdigit_def)
  with False show ?thesis by (simp add: level_flag_def)
qed


lemma mode_flag_eq:
  "mode_flag c = (if c = CHR ''d'' then Some OP_READ else if c = CHR ''x'' then Some OP_EXTRACT
                  else if c = CHR ''l'' then Some OP_LIST else None)"
  by (simp add: mode_flag_def)

lemma getopt_case_op_level:
  "case getopt_case strtod s ev of
     Inl h \<Rightarrow> True
   | Inr s' \<Rightarrow>
       op s' = (case mode_flag (fst ev) of None \<Rightarrow> op s | Some v \<Rightarrow> v) \<and>
       level s' = (case level_flag (fst ev) of None \<Rightarrow> level s | Some v \<Rightarrow> v)"
  by (simp add: getopt_case_def Let_def mode_flag_eq level_flag_digit isdigit_def
           split: prod.split)

lemma getopt_case_flag_ok:
  assumes "mode_flag (fst ev) \<noteq> None \<or> level_flag (fst ev) \<noteq> None"
  shows "\<exists>s'. getopt_case strtod s ev = Inr s'"
proof -
  have "(mode_flag (fst ev) \<noteq> None \<or> level_flag (fst ev) \<noteq> None) \<longrightarrow>
        (\<exists>s'. getopt_case strtod s ev = Inr s')"
    by (simp add: getopt_case_def Let_def mode_flag_eq level_flag_digit isdigit_def)
  with assms show ?thesis by blast
qed

text \<open>
  Claim C9: several mode flags among \<open>-d\<close>, \<open>-x\<close>, \<open>-l\<close> in one argument list raise no
  error, and the mode is the one of the last such flag; the digit flags set the level by
  the same rule. An option list made of mode and digit flags only is always accepted, and
  whenever the loop accepts an option list, whatever other flags it holds, the mode and
  the level are those of the last flag of their family (or unchanged without one).
\<close>

theorem last_mode_and_level_flag_win:
  "((\<forall>ev \<in> set evs. mode_flag (fst ev) \<noteq> None \<or> level_flag (fst ev) \<noteq> None) \<longrightarrow>
      (\<exists>s'. getopt_loop strtod s evs = Inr s')) \<and>
   (\<forall>s'. getopt_loop strtod s evs = Inr s' \<longrightarrow>
      op s' = last_flag mode_flag (op s) evs \<and>
      level s' = last_flag level_flag (level s) evs)"
proof (induction evs arbitrary: s)
  case Nil
  show ?case by (simp add: last_flag_Nil)
next
  case (Cons ev evs)
  show ?case
  proof (cases "getopt_case strtod s ev")
    case (Inl h)
    have "\<not> (mode_flag (fst ev) \<noteq> None \<or> level_flag (fst ev) \<noteq> None)"
    proof
      assume "mode_flag (fst ev) \<noteq> None \<or> level_flag (fst ev) \<noteq> None"
      then obtain s1 where "getopt_case strtod s ev = Inr s1"
        using getopt_case_flag_ok by blast
      with Inl show False by simp
    qed
    with Inl show ?thesis by simp
  next
    case (Inr s1)
    from getopt_case_op_level [where strtod = strtod and s = s and ev = ev] Inr
    have st: "op s1 = (case mode_flag (fst ev) of None \<Rightarrow> op s | Some v \<Rightarrow> v)"
      "level s1 = (case level_flag (fst ev) of None \<Rightarrow> level s | Some v \<Rightarrow> v)"
      by simp_all
    from Cons.IH [of s1] Inr st show ?thesis
      by (simp add: last_flag_Cons)
  qed
qed

theorem last_mode_and_level_flag_win_witness:
  "\<exists>s'. getopt_loop no_strtod init_opts
          [(CHR ''d'', []), (CHR ''x'', []), (CHR ''3'', []), (CHR ''l'', []), (CHR ''7'', [])]
        = Inr s' \<and> op s' = OP_LIST \<and> level s' = 7"
proof -
  let ?evs = "[(CHR ''d'', []), (CHR ''x'', []), (CHR ''3'', []), (CHR ''l'', []), (CHR ''7'', [])]"
  note t = last_mode_and_level_flag_win [of ?evs no_strtod init_opts]
  have "\<forall>ev \<in> set ?evs. mode_flag (fst ev) \<noteq> None \<or> level_flag (fst ev) \<noteq> None"
    by (simp add: mode_flag_def level_flag_def)
  with t obtain s' where s: "getopt_loop no_strtod init_opts ?evs = Inr s'" by blast
  with t have "op s' = last_flag mode_flag (op init_opts) ?evs"
    "level s' = last_flag level_flag (level init_opts) ?evs" by blast+
  then have "op s' = OP_LIST" "level s' = 7"
    by (simp_all add: last_flag_def mode_flag_def level_flag_def)
  with s show ?thesis by blast
qed

subsection \<open>Exit codes\<close>

text \<open>How each part of \<open>main\<close> can end the run early.\<close>

lemma getopt_case_halt:
  "case getopt_case strtod s ev of
     Inl h \<Rightarrow> h = usage None \<or> h = version \<or> (\<exists>m \<in> set usage_errors. h = usage (Some m)) \<or>
              h = after_getopt_error (usage (Some ''''))
   | Inr s' \<Rightarrow> True"
  by (simp add: getopt_case_def Let_def usage_errors_def split: prod.split)

lemma getopt_loop_halt:
  "getopt_loop strtod s evs = Inl h \<Longrightarrow>
   h = usage None \<or> h = version \<or> (\<exists>m \<in> set usage_errors. h = usage (Some m)) \<or>
   h = after_getopt_error (usage (Some ''''))"
proof (induction evs arbitrary: s)
  case Nil
  then show ?case by simp
next
  case (Cons ev evs)
  show ?case
  proof (cases "getopt_case strtod s ev")
    case (Inl h')
    with Cons.prems have "h' = h" by simp
    with getopt_case_halt [where strtod = strtod and s = s and ev = ev] Inl
    show ?thesis by simp
  next
    case (Inr s1)
    with Cons.prems have "getopt_loop strtod s1 evs = Inl h" by simp
    then show ?thesis by (rule Cons.IH)
  qed
qed

lemma main_positional_halt:
  "case main_positional s argv of
     Inl h \<Rightarrow> \<exists>m \<in> set usage_errors. h = usage (Some m)
   | Inr x \<Rightarrow> True"
proof -
  obtain r where "auto_output (op s) (argv ! 0) = Inr r"
    using auto_output_defined by blast
  then show ?thesis
    by (simp add: main_positional_def Let_def usage_errors_def split: sum.split option.split)
qed

lemma main_open_halt:
  "case main_open s w of
     Inl hw \<Rightarrow> (\<exists>r. fst hw = Die r) \<or> (\<exists>f. fst hw = Undefined f)
   | Inr w' \<Rightarrow> True"
  by (simp add: main_open_def fopen_w_def fopen_r_def stat_def open_creat_wronly_def Let_def
           split: option.split sum.split prod.split)

lemma main_dispatch_halt:
  "case main_dispatch s argv w of
     Inl hw \<Rightarrow> fst hw = usage (Some ''Refusing to output to a TTY'') \<or> fst hw = Die Engine_failed
   | Inr w' \<Rightarrow> True"
  by (simp add: main_dispatch_def engine_def Let_def split: pixz_op_t.split)

lemma main_halt:
  "fst (main strtod w evs argv) = usage None \<or>
   fst (main strtod w evs argv) = version \<or>
   (\<exists>m \<in> set usage_errors. fst (main strtod w evs argv) = usage (Some m)) \<or>
   fst (main strtod w evs argv) = after_getopt_error (usage (Some '''')) \<or>
   (\<exists>r. fst (main strtod w evs argv) = Die r) \<or>
   (\<exists>f. fst (main strtod w evs argv) = Undefined f) \<or>
   fst (main strtod w evs argv) = Exit 0 []"
proof (cases "getopt_loop strtod init_opts evs")
  case (Inl h)
  from getopt_loop_halt [OF Inl] Inl show ?thesis by (auto simp: main_def)
next
  case s: (Inr s)
  show ?thesis
  proof (cases "main_positional s argv")
    case (Inl h)
    with main_positional_halt [of s argv] s show ?thesis by (auto simp: main_def)
  next
    case p: (Inr x)
    obtain s1 iremove where x: "x = (s1, iremove)" by (cases x)
    show ?thesis
    proof (cases "main_open s1 w")
      case (Inl hw)
      with main_open_halt [of s1 w] s p x show ?thesis by (auto simp: main_def)
    next
      case o: (Inr w1)
      show ?thesis
      proof (cases "main_dispatch s1 argv w1")
        case (Inl hw)
        have "''Refusing to output to a TTY'' \<in> set usage_errors"
          by (simp add: usage_errors_def)
        with Inl main_dispatch_halt [of s1 argv w1] s p x o show ?thesis
          by (auto simp: main_def)
      next
        case (Inr w2)
        with s p x o show ?thesis by (auto simp: main_def)
      qed
    qed
  qed
qed

lemma main_exits:
  "fst (main strtod w evs argv) = Exit k out \<Longrightarrow>
   (k = 2 \<and> ((\<exists>m \<in> set usage_errors. out = [Msg m, Help_text]) \<or>
              out = [Getopt_error, Msg '''', Help_text])) \<or>
   (k = 0 \<and> (out = [Help_text] \<or> out = [Version_text] \<or> out = []))"
  using main_halt [of strtod w evs argv]
  by (auto simp: usage_def version_def)

text \<open>An option that ends the run, after options that the loop accepted.\<close>

lemma getopt_loop_append:
  "getopt_loop strtod s (pre @ ev # post) =
     (case getopt_loop strtod s pre of
        Inl h \<Rightarrow> Inl h
      | Inr s1 \<Rightarrow>
          (case getopt_case strtod s1 ev of
             Inl h \<Rightarrow> Inl h
           | Inr s2 \<Rightarrow> getopt_loop strtod s2 post))"
  by (induction pre arbitrary: s) (simp_all split: sum.split)

lemma main_option_halt:
  assumes "getopt_loop strtod init_opts pre = Inr s" and "getopt_case strtod s ev = Inl h"
  shows "fst (main strtod w (pre @ ev # post) argv) = h"
  using assms by (simp add: main_def getopt_loop_append)

lemma getopt_case_help:
  "getopt_case strtod s (CHR ''h'', a) = Inl (Exit 0 [Help_text])"
  by (simp add: getopt_case_def usage_def)

lemma getopt_case_version:
  "getopt_case strtod s (CHR ''V'', a) = Inl (Exit 0 [Version_text])"
  by (simp add: getopt_case_def version_def)

lemma getopt_case_unknown:
  assumes "ch \<notin> set ''cdxliotkheVfpq0123456789''"
  shows "getopt_case strtod s (ch, a) =
     Inl (Exit 2 (if ch = CHR ''?'' then [Getopt_error, Msg '''', Help_text]
                  else [Msg '''', Help_text]))"
proof -
  from assms digit_chars [of ch] have "\<not> isdigit ch" by auto
  with assms show ?thesis by (simp add: getopt_case_def usage_def)
qed

lemma getopt_case_bad_p:
  assumes "fst (strtol a) < 0 \<or> snd (strtol a) \<noteq> []"
  shows "getopt_case strtod s (CHR ''p'', a) =
     Inl (Exit 2 [Msg ''Need a non-negative integer argument to -p'', Help_text])"
  using assms by (auto simp: getopt_case_def usage_def Let_def split: prod.split)

lemma getopt_case_bad_q:
  assumes "fst (strtol a) \<le> 0 \<or> snd (strtol a) \<noteq> []"
  shows "getopt_case strtod s (CHR ''q'', a) =
     Inl (Exit 2 [Msg ''Need a positive integer argument to -q'', Help_text])"
  using assms by (auto simp: getopt_case_def usage_def Let_def split: prod.split)

lemma getopt_case_bad_f:
  assumes "snd (strtod a) \<noteq> [] \<or> dbl_le_zero (fst (strtod a))"
  shows "getopt_case strtod s (CHR ''f'', a) =
     Inl (Exit 2 [Msg ''Need a positive floating-point argument to -f'', Help_text])"
  using assms by (auto simp: getopt_case_def usage_def Let_def split: prod.split)

text \<open>The positional arguments that end the run.\<close>

lemma main_positional_exit:
  assumes "getopt_loop strtod init_opts evs = Inr t" and "main_positional t argv = Inl h"
  shows "fst (main strtod w evs argv) = h"
  using assms by (simp add: main_def)

lemma positional_too_many:
  assumes "op t \<noteq> OP_EXTRACT" and "2 < length argv \<or> (op t = OP_LIST \<and> length argv = 2)"
  shows "main_positional t argv = Inl (Exit 2 [Msg ''Too many arguments'', Help_text])"
  using assms by (auto simp: main_positional_def usage_def)

lemma positional_multiple_input:
  assumes "op t \<noteq> OP_EXTRACT" and "argv \<noteq> []" and "length argv \<le> 2"
    and "\<not> (op t = OP_LIST \<and> length argv = 2)" and "ipath t \<noteq> None"
  shows "main_positional t argv = Inl (Exit 2 [Msg ''Multiple input files specified'', Help_text])"
proof -
  from assms(2) have "1 \<le> length argv" by (cases argv) simp_all
  with assms show ?thesis by (auto simp: main_positional_def usage_def)
qed

lemma positional_multiple_output:
  assumes "op t \<noteq> OP_EXTRACT" and "length argv = 2" and "op t \<noteq> OP_LIST"
    and "ipath t = None" and "opath t \<noteq> None"
  shows "main_positional t argv = Inl (Exit 2 [Msg ''Multiple output files specified'', Help_text])"
  using assms by (auto simp: main_positional_def usage_def)

lemma positional_unknown_suffix:
  assumes "op t = OP_READ" and "ipath t = None"
    and "\<not> suffix ''.tar.xz'' n" and "\<not> suffix ''.tpxz'' n" and "\<not> suffix ''.xz'' n"
  shows "main_positional t [n] = Inl (Exit 2 [Msg ''Unknown suffix'', Help_text])"
  using assms by (simp add: main_positional_def auto_output_READ usage_def)

text \<open>The switch on the mode, once the streams are open.\<close>

lemma main_tty_refused:
  assumes "getopt_loop strtod init_opts evs = Inr t" and "main_positional t argv = Inr (t1, ir)"
    and "main_open t1 w = Inr w1" and "op t1 = OP_WRITE" and "is_tty w1 (opath t1)"
  shows "fst (main strtod w evs argv) = Exit 2 [Msg ''Refusing to output to a TTY'', Help_text]"
  using assms by (simp add: main_def main_dispatch_def usage_def)

lemma main_completes:
  assumes "getopt_loop strtod init_opts evs = Inr t" and "main_positional t argv = Inr (t1, ir)"
    and "main_open t1 w = Inr w1" and "op t1 = OP_WRITE \<longrightarrow> \<not> is_tty w1 (opath t1)"
    and "engine_ok w1"
  shows "fst (main strtod w evs argv) = Exit 0 []"
  using assms
  by (cases "op t1") (simp_all add: main_def main_dispatch_def engine_def log_def Let_def)

text \<open>
  Claim C6: the exit code is 0 for normal completion, for the help text (\<open>-h\<close>) and
  for the version (\<open>-V\<close>), and 2 for every usage error. After options that the loop
  accepts, \<open>-h\<close> and \<open>-V\<close> end the run with code 0, and an option that is not in the
  option string (\<open>?\<close> from \<open>getopt\<close> included) or a bad argument of \<open>-p\<close>, \<open>-q\<close> or
  \<open>-f\<close> ends it with code 2. After an accepted option list, too many positional
  arguments, a second input or output file, and a Read name with an unknown suffix end
  the run with code 2. Once the streams are open, Write mode to a terminal ends the run
  with code 2, and every other run whose engine succeeds returns 0. And whenever a run
  ends by \<open>exit\<close> or by returning from \<open>main\<close>, the code is 2 with a usage message before
  the help text, or 0 with the help text alone, the version alone, or nothing.
\<close>

theorem exit_codes:
  "(getopt_loop strtod init_opts pre = Inr s \<longrightarrow>
      fst (main strtod w (pre @ (CHR ''h'', a) # post) argv) = Exit 0 [Help_text] \<and>
      fst (main strtod w (pre @ (CHR ''V'', a) # post) argv) = Exit 0 [Version_text] \<and>
      (ch \<notin> set ''cdxliotkheVfpq0123456789'' \<longrightarrow>
         fst (main strtod w (pre @ (ch, a) # post) argv) =
           Exit 2 (if ch = CHR ''?'' then [Getopt_error, Msg '''', Help_text]
                   else [Msg '''', Help_text])) \<and>
      (fst (strtol a) < 0 \<or> snd (strtol a) \<noteq> [] \<longrightarrow>
         fst (main strtod w (pre @ (CHR ''p'', a) # post) argv) =
           Exit 2 [Msg ''Need a non-negative integer argument to -p'', Help_text]) \<and>
      (fst (strtol a) \<le> 0 \<or> snd (strtol a) \<noteq> [] \<longrightarrow>
         fst (main strtod w (pre @ (CHR ''q'', a) # post) argv) =
           Exit 2 [Msg ''Need a positive integer argument to -q'', Help_text]) \<and>
      (snd (strtod a) \<noteq> [] \<or> dbl_le_zero (fst (strtod a)) \<longrightarrow>
         fst (main strtod w (pre @ (CHR ''f'', a) # post) argv) =
           Exit 2 [Msg ''Need a positive floating-point argument to -f'', Help_text])) \<and>
   (getopt_loop strtod init_opts evs = Inr t \<and> op t \<noteq> OP_EXTRACT \<longrightarrow>
      (2 < length argv \<or> (op t = OP_LIST \<and> length argv = 2) \<longrightarrow>
         fst (main strtod w evs argv) = Exit 2 [Msg ''Too many arguments'', Help_text]) \<and>
      (argv \<noteq> [] \<and> length argv \<le> 2 \<and> \<not> (op t = OP_LIST \<and> length argv = 2) \<and>
       ipath t \<noteq> None \<longrightarrow>
         fst (main strtod w evs argv) = Exit 2 [Msg ''Multiple input files specified'', Help_text]) \<and>
      (length argv = 2 \<and> op t \<noteq> OP_LIST \<and> ipath t = None \<and> opath t \<noteq> None \<longrightarrow>
         fst (main strtod w evs argv) = Exit 2 [Msg ''Multiple output files specified'', Help_text]) \<and>
      (op t = OP_READ \<and> ipath t = None \<and>
       \<not> suffix ''.tar.xz'' n \<and> \<not> suffix ''.tpxz'' n \<and> \<not> suffix ''.xz'' n \<longrightarrow>
         fst (main strtod w evs [n]) = Exit 2 [Msg ''Unknown suffix'', Help_text])) \<and>
   (getopt_loop strtod init_opts evs = Inr t \<and> main_positional t argv = Inr (tp, ir) \<and>
    main_open tp w = Inr wo \<longrightarrow>
      (op tp = OP_WRITE \<and> is_tty wo (opath tp) \<longrightarrow>
         fst (main strtod w evs argv) = Exit 2 [Msg ''Refusing to output to a TTY'', Help_text]) \<and>
      ((op tp = OP_WRITE \<longrightarrow> \<not> is_tty wo (opath tp)) \<and> engine_ok wo \<longrightarrow>
         fst (main strtod w evs argv) = Exit 0 [])) \<and>
   (fst (main strtod w evs argv) = Exit k out \<longrightarrow>
      (k = 2 \<and> ((\<exists>m \<in> set usage_errors. out = [Msg m, Help_text]) \<or>
                 out = [Getopt_error, Msg '''', Help_text])) \<or>
      (k = 0 \<and> (out = [Help_text] \<or> out = [Version_text] \<or> out = [])))"
proof -
  have A: "getopt_loop strtod init_opts pre = Inr s \<longrightarrow>
      fst (main strtod w (pre @ (CHR ''h'', a) # post) argv) = Exit 0 [Help_text] \<and>
      fst (main strtod w (pre @ (CHR ''V'', a) # post) argv) = Exit 0 [Version_text] \<and>
      (ch \<notin> set ''cdxliotkheVfpq0123456789'' \<longrightarrow>
         fst (main strtod w (pre @ (ch, a) # post) argv) =
           Exit 2 (if ch = CHR ''?'' then [Getopt_error, Msg '''', Help_text]
                   else [Msg '''', Help_text])) \<and>
      (fst (strtol a) < 0 \<or> snd (strtol a) \<noteq> [] \<longrightarrow>
         fst (main strtod w (pre @ (CHR ''p'', a) # post) argv) =
           Exit 2 [Msg ''Need a non-negative integer argument to -p'', Help_text]) \<and>
      (fst (strtol a) \<le> 0 \<or> snd (strtol a) \<noteq> [] \<longrightarrow>
         fst (main strtod w (pre @ (CHR ''q'', a) # post) argv) =
           Exit 2 [Msg ''Need a positive integer argument to -q'', Help_text]) \<and>
      (snd (strtod a) \<noteq> [] \<or> dbl_le_zero (fst (strtod a)) \<longrightarrow>
         fst (main strtod w (pre @ (CHR ''f'', a) # post) argv) =
           Exit 2 [Msg ''Need a positive floating-point argument to -f'', Help_text])"
  proof (intro impI conjI)
    assume g: "getopt_loop strtod init_opts pre = Inr s"
    show "fst (main strtod w (pre @ (CHR ''h'', a) # post) argv) = Exit 0 [Help_text]"
      by (rule main_option_halt [OF g getopt_case_help])
  next
    assume g: "getopt_loop strtod init_opts pre = Inr s"
    show "fst (main strtod w (pre @ (CHR ''V'', a) # post) argv) = Exit 0 [Version_text]"
      by (rule main_option_halt [OF g getopt_case_version])
  next
    assume g: "getopt_loop strtod init_opts pre = Inr s"
      and c: "ch \<notin> set ''cdxliotkheVfpq0123456789''"
    show "fst (main strtod w (pre @ (ch, a) # post) argv) =
           Exit 2 (if ch = CHR ''?'' then [Getopt_error, Msg '''', Help_text]
                   else [Msg '''', Help_text])"
      by (rule main_option_halt [OF g getopt_case_unknown [OF c]])
  next
    assume g: "getopt_loop strtod init_opts pre = Inr s"
      and c: "fst (strtol a) < 0 \<or> snd (strtol a) \<noteq> []"
    show "fst (main strtod w (pre @ (CHR ''p'', a) # post) argv) =
           Exit 2 [Msg ''Need a non-negative integer argument to -p'', Help_text]"
      by (rule main_option_halt [OF g getopt_case_bad_p [OF c]])
  next
    assume g: "getopt_loop strtod init_opts pre = Inr s"
      and c: "fst (strtol a) \<le> 0 \<or> snd (strtol a) \<noteq> []"
    show "fst (main strtod w (pre @ (CHR ''q'', a) # post) argv) =
           Exit 2 [Msg ''Need a positive integer argument to -q'', Help_text]"
      by (rule main_option_halt [OF g getopt_case_bad_q [OF c]])
  next
    assume g: "getopt_loop strtod init_opts pre = Inr s"
      and c: "snd (strtod a) \<noteq> [] \<or> dbl_le_zero (fst (strtod a))"
    show "fst (main strtod w (pre @ (CHR ''f'', a) # post) argv) =
           Exit 2 [Msg ''Need a positive floating-point argument to -f'', Help_text]"
      by (rule main_option_halt [OF g getopt_case_bad_f [where strtod = strtod and a = a, OF c]])
  qed
  have B: "getopt_loop strtod init_opts evs = Inr t \<and> op t \<noteq> OP_EXTRACT \<longrightarrow>
      (2 < length argv \<or> (op t = OP_LIST \<and> length argv = 2) \<longrightarrow>
         fst (main strtod w evs argv) = Exit 2 [Msg ''Too many arguments'', Help_text]) \<and>
      (argv \<noteq> [] \<and> length argv \<le> 2 \<and> \<not> (op t = OP_LIST \<and> length argv = 2) \<and>
       ipath t \<noteq> None \<longrightarrow>
         fst (main strtod w evs argv) = Exit 2 [Msg ''Multiple input files specified'', Help_text]) \<and>
      (length argv = 2 \<and> op t \<noteq> OP_LIST \<and> ipath t = None \<and> opath t \<noteq> None \<longrightarrow>
         fst (main strtod w evs argv) = Exit 2 [Msg ''Multiple output files specified'', Help_text]) \<and>
      (op t = OP_READ \<and> ipath t = None \<and>
       \<not> suffix ''.tar.xz'' n \<and> \<not> suffix ''.tpxz'' n \<and> \<not> suffix ''.xz'' n \<longrightarrow>
         fst (main strtod w evs [n]) = Exit 2 [Msg ''Unknown suffix'', Help_text])"
  proof (intro impI conjI)
    assume g: "getopt_loop strtod init_opts evs = Inr t \<and> op t \<noteq> OP_EXTRACT"
      and c: "2 < length argv \<or> (op t = OP_LIST \<and> length argv = 2)"
    from g have g1: "getopt_loop strtod init_opts evs = Inr t" and g2: "op t \<noteq> OP_EXTRACT"
      by simp_all
    show "fst (main strtod w evs argv) = Exit 2 [Msg ''Too many arguments'', Help_text]"
      by (rule main_positional_exit [OF g1 positional_too_many [OF g2 c]])
  next
    assume g: "getopt_loop strtod init_opts evs = Inr t \<and> op t \<noteq> OP_EXTRACT"
      and c: "argv \<noteq> [] \<and> length argv \<le> 2 \<and> \<not> (op t = OP_LIST \<and> length argv = 2) \<and>
              ipath t \<noteq> None"
    from g have g1: "getopt_loop strtod init_opts evs = Inr t" and g2: "op t \<noteq> OP_EXTRACT"
      by simp_all
    from c have c1: "argv \<noteq> []" and c2: "length argv \<le> 2"
      and c3: "\<not> (op t = OP_LIST \<and> length argv = 2)" and c4: "ipath t \<noteq> None"
      by simp_all
    show "fst (main strtod w evs argv)
        = Exit 2 [Msg ''Multiple input files specified'', Help_text]"
      by (rule main_positional_exit [OF g1 positional_multiple_input [OF g2 c1 c2 c3 c4]])
  next
    assume g: "getopt_loop strtod init_opts evs = Inr t \<and> op t \<noteq> OP_EXTRACT"
      and c: "length argv = 2 \<and> op t \<noteq> OP_LIST \<and> ipath t = None \<and> opath t \<noteq> None"
    from g have g1: "getopt_loop strtod init_opts evs = Inr t" and g2: "op t \<noteq> OP_EXTRACT"
      by simp_all
    from c have c1: "length argv = 2" and c2: "op t \<noteq> OP_LIST" and c3: "ipath t = None"
      and c4: "opath t \<noteq> None"
      by simp_all
    show "fst (main strtod w evs argv)
        = Exit 2 [Msg ''Multiple output files specified'', Help_text]"
      by (rule main_positional_exit [OF g1 positional_multiple_output [OF g2 c1 c2 c3 c4]])
  next
    assume g: "getopt_loop strtod init_opts evs = Inr t \<and> op t \<noteq> OP_EXTRACT"
      and c: "op t = OP_READ \<and> ipath t = None \<and>
              \<not> suffix ''.tar.xz'' n \<and> \<not> suffix ''.tpxz'' n \<and> \<not> suffix ''.xz'' n"
    from g have g1: "getopt_loop strtod init_opts evs = Inr t" by simp
    from c have c1: "op t = OP_READ" and c2: "ipath t = None" and c3: "\<not> suffix ''.tar.xz'' n"
      and c4: "\<not> suffix ''.tpxz'' n" and c5: "\<not> suffix ''.xz'' n"
      by simp_all
    show "fst (main strtod w evs [n]) = Exit 2 [Msg ''Unknown suffix'', Help_text]"
      by (rule main_positional_exit [OF g1 positional_unknown_suffix [OF c1 c2 c3 c4 c5]])
  qed
  have C: "getopt_loop strtod init_opts evs = Inr t \<and> main_positional t argv = Inr (tp, ir) \<and>
    main_open tp w = Inr wo \<longrightarrow>
      (op tp = OP_WRITE \<and> is_tty wo (opath tp) \<longrightarrow>
         fst (main strtod w evs argv) = Exit 2 [Msg ''Refusing to output to a TTY'', Help_text]) \<and>
      ((op tp = OP_WRITE \<longrightarrow> \<not> is_tty wo (opath tp)) \<and> engine_ok wo \<longrightarrow>
         fst (main strtod w evs argv) = Exit 0 [])"
  proof (intro impI conjI)
    assume g: "getopt_loop strtod init_opts evs = Inr t \<and> main_positional t argv = Inr (tp, ir) \<and>
               main_open tp w = Inr wo"
      and c: "op tp = OP_WRITE \<and> is_tty wo (opath tp)"
    from g have g1: "getopt_loop strtod init_opts evs = Inr t"
      and g2: "main_positional t argv = Inr (tp, ir)" and g3: "main_open tp w = Inr wo"
      by simp_all
    from c have c1: "op tp = OP_WRITE" and c2: "is_tty wo (opath tp)" by simp_all
    show "fst (main strtod w evs argv)
        = Exit 2 [Msg ''Refusing to output to a TTY'', Help_text]"
      by (rule main_tty_refused [OF g1 g2 g3 c1 c2])
  next
    assume g: "getopt_loop strtod init_opts evs = Inr t \<and> main_positional t argv = Inr (tp, ir) \<and>
               main_open tp w = Inr wo"
      and c: "(op tp = OP_WRITE \<longrightarrow> \<not> is_tty wo (opath tp)) \<and> engine_ok wo"
    from g have g1: "getopt_loop strtod init_opts evs = Inr t"
      and g2: "main_positional t argv = Inr (tp, ir)" and g3: "main_open tp w = Inr wo"
      by simp_all
    from c have c1: "op tp = OP_WRITE \<longrightarrow> \<not> is_tty wo (opath tp)" and c2: "engine_ok wo"
      by simp_all
    show "fst (main strtod w evs argv) = Exit 0 []"
      by (rule main_completes [OF g1 g2 g3 c1 c2])
  qed
  have D: "fst (main strtod w evs argv) = Exit k out \<longrightarrow>
      (k = 2 \<and> ((\<exists>m \<in> set usage_errors. out = [Msg m, Help_text]) \<or>
                 out = [Getopt_error, Msg '''', Help_text])) \<or>
      (k = 0 \<and> (out = [Help_text] \<or> out = [Version_text] \<or> out = []))"
    using main_exits by blast
  from A B C D show ?thesis by (intro conjI)
qed

theorem exit_codes_witness:
  "fst (main no_strtod (example_world 0x81A4 0x12) [(CHR ''h'', [])] []) = Exit 0 [Help_text] \<and>
   fst (main no_strtod (example_world 0x81A4 0x12) [(CHR ''V'', [])] []) = Exit 0 [Version_text] \<and>
   fst (main no_strtod (example_world 0x81A4 0x12) [(CHR ''?'', [])] [])
     = Exit 2 [Getopt_error, Msg '''', Help_text] \<and>
   fst (main no_strtod (example_world 0x81A4 0x12) [(CHR ''p'', ''-1'')] [])
     = Exit 2 [Msg ''Need a non-negative integer argument to -p'', Help_text] \<and>
   fst (main no_strtod (example_world 0x81A4 0x12) [(CHR ''d'', [])] [''notes.txt''])
     = Exit 2 [Msg ''Unknown suffix'', Help_text] \<and>
   fst (main no_strtod ((example_world 0x81A4 0x12)\<lparr>is_tty := (\<lambda>p. True)\<rparr>) [] [])
     = Exit 2 [Msg ''Refusing to output to a TTY'', Help_text] \<and>
   fst (main no_strtod (example_world 0x81A4 0x12) [(CHR ''d'', [])] []) = Exit 0 []"
proof -
  let ?W = "example_world 0x81A4 0x12"
  let ?T = "?W\<lparr>is_tty := (\<lambda>p. True)\<rparr>"
  let ?r = "init_opts\<lparr>op := OP_READ\<rparr>"
  have g0: "getopt_loop no_strtod init_opts [] = Inr init_opts" by simp
  have gd: "getopt_loop no_strtod init_opts [(CHR ''d'', [])] = Inr ?r"
    by (simp add: getopt_case_def)
  have bad: "fst (strtol ''-1'') < 0"
    by (simp add: strtol_def isspace_def isdigit_def digit_val_def clamp_long_def
          LONG_MIN_def LONG_MAX_def)
  have ns: "\<not> suffix ''.tar.xz'' ''notes.txt''" "\<not> suffix ''.tpxz'' ''notes.txt''"
    "\<not> suffix ''.xz'' ''notes.txt''"
    by (simp_all add: suffix_to_prefix)
  have pr: "main_positional ?r [] = Inr (?r, False)"
    by (simp add: main_positional_def)
  have orr: "main_open ?r ?W = Inr ?W"
    by (simp add: main_open_def init_opts_def)
  have p0: "main_positional init_opts [] = Inr (init_opts, False)"
    by (simp add: main_positional_def)
  have o0: "main_open init_opts ?T = Inr ?T"
    by (simp add: main_open_def init_opts_def)
  have e: "engine_ok ?W" "\<not> is_tty ?W (opath ?r)" "is_tty ?T (opath init_opts)"
    "op init_opts = OP_WRITE" "op ?r = OP_READ" "ipath ?r = None"
    by (simp_all add: example_world_def init_opts_def)
  note opt = exit_codes [where strtod = no_strtod and w = ?W and pre = "[]" and s = init_opts
      and post = "[]" and argv = "[]" and ch = "CHR ''?''" and evs = "[(CHR ''d'', [])]"
      and t = ?r and n = "''notes.txt''" and tp = ?r and ir = False and wo = ?W
      and k = 0 and out = "[]"]
  from opt [where a = "[]"] g0
  have h: "fst (main no_strtod ?W [(CHR ''h'', [])] []) = Exit 0 [Help_text]"
    and v: "fst (main no_strtod ?W [(CHR ''V'', [])] []) = Exit 0 [Version_text]"
    and q: "fst (main no_strtod ?W [(CHR ''?'', [])] [])
              = Exit 2 [Getopt_error, Msg '''', Help_text]"
    by simp_all
  from opt [where a = "''-1''"] g0 bad
  have p: "fst (main no_strtod ?W [(CHR ''p'', ''-1'')] [])
             = Exit 2 [Msg ''Need a non-negative integer argument to -p'', Help_text]"
    by simp
  from opt [where a = "[]"] gd ns e
  have u: "fst (main no_strtod ?W [(CHR ''d'', [])] [''notes.txt''])
             = Exit 2 [Msg ''Unknown suffix'', Help_text]"
    by simp
  from opt [where a = "[]"] gd pr orr e
  have c: "fst (main no_strtod ?W [(CHR ''d'', [])] []) = Exit 0 []"
    by simp
  from exit_codes [where strtod = no_strtod and w = ?T and pre = "[]" and s = init_opts
      and a = "[]" and post = "[]" and argv = "[]" and ch = "CHR ''?''" and evs = "[]"
      and t = init_opts and n = "''notes.txt''" and tp = init_opts and ir = False
      and wo = ?T and k = 0 and out = "[]"] g0 p0 o0 e
  have y: "fst (main no_strtod ?T [] []) = Exit 2 [Msg ''Refusing to output to a TTY'', Help_text]"
    by simp
  from h v q p u y c show ?thesis by simp
qed

subsection \<open>Extract mode\<close>

text \<open>
  Claim C5: in Extract mode the positional arguments, however many, are member names.
  After an option loop that ends in Extract mode, the positional arguments leave the
  input path, the output path and \<open>iremove\<close> as the options set them; the run opens
  the streams for these paths and calls \<open>pixz_read\<close> with the tar flag and the whole
  positional list; it never ends with the message about too many arguments, and when it
  returns 0 the last call is this \<open>pixz_read\<close>.
\<close>

theorem extract_arguments_are_member_names:
  assumes "getopt_loop strtod init_opts evs = Inr s" and "op s = OP_EXTRACT"
  shows "main_positional s argv = Inr (s, False) \<and>
         main strtod w evs argv =
           (case main_open s w of
              Inl hw \<Rightarrow> hw
            | Inr w1 \<Rightarrow>
                (case engine (Pixz_read (tar s) argv) w1 of
                   Inl hw \<Rightarrow> hw
                 | Inr w2 \<Rightarrow> (Exit 0 [], w2))) \<and>
         fst (main strtod w evs argv) \<noteq> usage (Some ''Too many arguments'') \<and>
         (fst (main strtod w evs argv) = Exit 0 [] \<longrightarrow>
            (\<exists>cs. calls (snd (main strtod w evs argv)) = cs @ [Pixz_read (tar s) argv]))"
proof -
  from assms(2) have p: "main_positional s argv = Inr (s, False)"
    by (simp add: main_positional_def)
  from assms(2) have d: "\<And>w1. main_dispatch s argv w1 = engine (Pixz_read (tar s) argv) w1"
    by (simp add: main_dispatch_def)
  have m: "main strtod w evs argv =
           (case main_open s w of
              Inl hw \<Rightarrow> hw
            | Inr w1 \<Rightarrow>
                (case engine (Pixz_read (tar s) argv) w1 of
                   Inl hw \<Rightarrow> hw
                 | Inr w2 \<Rightarrow> (Exit 0 [], w2)))"
    using assms(1) p d by (simp add: main_def main_cleanup_def split: sum.split)
  have e: "\<And>w1. case engine (Pixz_read (tar s) argv) w1 of
              Inl hw \<Rightarrow> fst hw = Die Engine_failed
            | Inr w2 \<Rightarrow> calls w2 = calls w1 @ [Pixz_read (tar s) argv]"
    by (simp add: engine_def log_def Let_def)
  have n: "fst (main strtod w evs argv) \<noteq> usage (Some ''Too many arguments'')"
  proof (cases "main_open s w")
    case (Inl hw)
    with main_open_halt [of s w] m show ?thesis by (auto simp: usage_def)
  next
    case (Inr w1)
    with e [of w1] m show ?thesis
      by (cases "engine (Pixz_read (tar s) argv) w1") (auto simp: usage_def)
  qed
  have c: "fst (main strtod w evs argv) = Exit 0 [] \<longrightarrow>
            (\<exists>cs. calls (snd (main strtod w evs argv)) = cs @ [Pixz_read (tar s) argv])"
  proof (cases "main_open s w")
    case (Inl hw)
    with main_open_halt [of s w] m show ?thesis by auto
  next
    case (Inr w1)
    with e [of w1] m show ?thesis
      by (cases "engine (Pixz_read (tar s) argv) w1") auto
  qed
  from p m n c show ?thesis by blast
qed

theorem extract_arguments_are_member_names_witness:
  "fst (main no_strtod (example_world 0x81A4 0x12) [(CHR ''x'', [])] [''a'', ''b'', ''c''])
     = Exit 0 [] \<and>
   calls (snd (main no_strtod (example_world 0x81A4 0x12) [(CHR ''x'', [])] [''a'', ''b'', ''c'']))
     = [Pixz_read True [''a'', ''b'', ''c'']]"
proof -
  have g: "getopt_loop no_strtod init_opts [(CHR ''x'', [])] = Inr (init_opts\<lparr>op := OP_EXTRACT\<rparr>)"
    by (simp add: getopt_case_def)
  have o: "op (init_opts\<lparr>op := OP_EXTRACT\<rparr>) = OP_EXTRACT" by simp
  from extract_arguments_are_member_names [OF g o, of "[''a'', ''b'', ''c'']" "example_world 0x81A4 0x12"]
  show ?thesis
    by (simp add: init_opts_def main_open_def engine_def log_def example_world_def)
qed

subsection \<open>The mode of the output file\<close>

lemma and_not_disjoint:
  fixes x u :: mode_t
  assumes "x AND u = 0"
  shows "x AND NOT u = x"
proof (rule bit_eqI)
  fix n
  from assms have "bit (x AND u) n = bit (0 :: mode_t) n" by simp
  then have "\<not> (bit x n \<and> bit u n)" by (simp add: bit_and_iff)
  then show "bit (x AND NOT u) n = bit x n"
    by (auto simp: bit_and_iff bit_not_iff dest: bit_imp_le_length)
qed

lemma perm_bits_created:
  assumes "perm_bits m AND u = 0"
  shows "perm_bits (S_IFREG OR (perm_bits m AND NOT u)) = perm_bits m"
proof -
  have "perm_bits m AND NOT u = perm_bits m"
    using assms by (rule and_not_disjoint)
  moreover have "perm_bits (S_IFREG OR perm_bits m) = perm_bits m"
    by (simp add: perm_bits_def S_IFREG_def bit.conj_disj_distrib2 and.assoc)
  ultimately show ?thesis by simp
qed

text \<open>
  Claim C4 says that the output file of a run with a named input gets exactly the
  permission bits of the input, mode 0644 for an input of mode 0644. With the umask 077
  the run on \<open>input.tar\<close> of mode 0644 (\<open>st_mode\<close> 0x81A4) creates \<open>input.tpxz\<close>
  with mode 0600 (0x8180): the mode goes to \<open>open\<close> as the creation mode, which the
  umask filters.
\<close>

theorem output_mode_masked_by_umask:
  "files (example_world 0x81A4 0x3F) ''input.tar'' = Some 0x81A4 \<and>
   fst (main no_strtod (example_world 0x81A4 0x3F) [] [''input.tar'']) = Exit 0 [] \<and>
   files (snd (main no_strtod (example_world 0x81A4 0x3F) [] [''input.tar''])) ''input.tpxz''
     = Some 0x8180 \<and>
   perm_bits 0x81A4 = 0x1A4 \<and> perm_bits 0x8180 = 0x180 \<and>
   perm_bits 0x8180 \<noteq> perm_bits 0x81A4"
  by (simp add: run_defs)

text \<open>
  Claim C4 as amended: when both paths are set and the streams open, the input was opened
  for reading, then its mode \<open>m\<close> was read with \<open>stat\<close>, then the output was opened
  with \<open>O_CREAT | O_WRONLY\<close> and exactly \<open>m\<close> as the creation mode. An output path
  that existed keeps its mode. An output file that the call creates has the permission
  bits of \<open>m\<close> that the umask does not clear, so all of them when the umask clears none
  of them: mode 0644 for an input of mode 0644 under the umask 022.
\<close>

theorem output_created_with_input_mode:
  assumes "ipath s = Some ipth" and "opath s = Some opth" and "main_open s w = Inr w'"
  shows "\<exists>m. files w ipth = Some m \<and>
           calls w' = calls w @ [Fopen ipth ''r'', Stat ipth, Open_creat_wronly opth m, Fdopen] \<and>
           (case files w opth of
              Some old \<Rightarrow> files w' opth = Some old
            | None \<Rightarrow>
                files w' opth = Some (S_IFREG OR (perm_bits m AND NOT (umask w))) \<and>
                (perm_bits m AND umask w = 0 \<longrightarrow>
                   perm_bits (S_IFREG OR (perm_bits m AND NOT (umask w))) = perm_bits m))"
proof (cases "files w ipth")
  case None
  with assms show ?thesis
    by (simp add: main_open_def fopen_r_def Let_def)
next
  case (Some m)
  with assms have
    "calls w' = calls w @ [Fopen ipth ''r'', Stat ipth, Open_creat_wronly opth m, Fdopen]"
    "files w' opth = (case files w opth of
                        Some old \<Rightarrow> Some old
                      | None \<Rightarrow> Some (S_IFREG OR (perm_bits m AND NOT (umask w))))"
    by (auto simp: main_open_def fopen_r_def stat_def open_creat_wronly_def create_file_def
          log_def Let_def split: if_splits option.splits)
  with Some show ?thesis
    by (auto simp: perm_bits_created split: option.splits)
qed

theorem output_created_with_input_mode_witness:
  "main_positional init_opts [''input.tar'']
     = Inr (init_opts\<lparr>ipath := Some ''input.tar'', opath := Some ''input.tpxz''\<rparr>, True) \<and>
   (\<exists>w'. main_open (init_opts\<lparr>ipath := Some ''input.tar'', opath := Some ''input.tpxz''\<rparr>)
            (example_world 0x81A4 0x12) = Inr w' \<and>
         files w' ''input.tpxz'' = Some 0x81A4 \<and> perm_bits 0x81A4 = 0x1A4)"
proof -
  let ?s = "init_opts\<lparr>ipath := Some ''input.tar'', opath := Some ''input.tpxz''\<rparr>"
  let ?w = "example_world 0x81A4 0x12"
  have p: "main_positional init_opts [''input.tar''] = Inr (?s, True)"
    by (simp add: run_defs)
  have "\<exists>w'. main_open ?s ?w = Inr w'"
    by (simp add: run_defs)
  then obtain w' where o: "main_open ?s ?w = Inr w'" by blast
  have i: "ipath ?s = Some ''input.tar''" and u: "opath ?s = Some ''input.tpxz''"
    by simp_all
  from output_created_with_input_mode [OF i u o]
  have "files w' ''input.tpxz'' = Some 0x81A4"
    by (simp add: example_world_def perm_bits_def S_IFREG_def)
  moreover have "perm_bits 0x81A4 = 0x1A4" by (simp add: perm_bits_def)
  ultimately show ?thesis using p o by blast
qed

end
